theory Spec2Isabelle
  imports
    Main
    "HOL-Library.Char_ord"
    "HOL-Library.List_Lexorder"
    "HOL-Library.Sublist"
    "HOL-Library.Multiset"
begin

section \<open>JavaScript values\<close>

text \<open>
  The values that flow through the modelled functions. Numbers are restricted to
  integers. An object is the list of its own enumerable properties in the order
  \<^verbatim>\<open>Object.keys\<close> reports them; a property map (\<open>obj\<close>) is used where the order
  plays no role. Strings are compared by code unit, as \<^verbatim>\<open><\<close> and \<^verbatim>\<open>>\<close> do in
  JavaScript: this is the lexicographic order on \<open>char list\<close>.
\<close>

datatype jsval =
    JUndefined
  | JNull
  | JBool bool
  | JNum int
  | JStr string
  | JArr "jsval list"
  | JObj "(string \<times> jsval) list"

type_synonym obj = "string \<rightharpoonup> jsval"

text \<open>\<^verbatim>\<open>!!v\<close>: the falsy values are undefined, null, false, 0 and the empty string.\<close>

fun truthy :: "jsval \<Rightarrow> bool" where
  "truthy JUndefined = False"
| "truthy JNull = False"
| "truthy (JBool b) = b"
| "truthy (JNum n) = (n \<noteq> 0)"
| "truthy (JStr s) = (s \<noteq> [])"
| "truthy (JArr xs) = True"
| "truthy (JObj ps) = True"

text \<open>\<^verbatim>\<open>typeof v\<close>; null and arrays are objects.\<close>

fun typeof :: "jsval \<Rightarrow> string" where
  "typeof JUndefined = ''undefined''"
| "typeof JNull = ''object''"
| "typeof (JBool b) = ''boolean''"
| "typeof (JNum n) = ''number''"
| "typeof (JStr s) = ''string''"
| "typeof (JArr xs) = ''object''"
| "typeof (JObj ps) = ''object''"

text \<open>\<^verbatim>\<open>o.k\<close> on a property map: a missing property reads as undefined.\<close>

definition getp :: "obj \<Rightarrow> string \<Rightarrow> jsval" where
  "getp ob k = (case ob k of None \<Rightarrow> JUndefined | Some v \<Rightarrow> v)"

text \<open>\<^verbatim>\<open>o.hasOwnProperty(k)\<close> on a property map.\<close>

definition hasOwnProperty :: "obj \<Rightarrow> string \<Rightarrow> bool" where
  "hasOwnProperty ob k = (ob k \<noteq> None)"

text \<open>\<^verbatim>\<open>delete o.k\<close> on a property map.\<close>

definition delete_prop :: "obj \<Rightarrow> string \<Rightarrow> obj" where
  "delete_prop ob k = ob(k := None)"

text \<open>\<^verbatim>\<open>String(n)\<close> for an integer: its decimal digits, with a sign when negative.\<close>

definition digit_char :: "nat \<Rightarrow> char" where
  "digit_char d = ''0123456789'' ! d"

fun decimal :: "nat \<Rightarrow> string" where
  "decimal n =
     (if n < 10 then [digit_char n]
      else decimal (n div 10) @ [digit_char (n mod 10)])"

declare decimal.simps [simp del]

definition decimal_int :: "int \<Rightarrow> string" where
  "decimal_int i = (if i < 0 then CHR ''-'' # decimal (nat (- i)) else decimal (nat i))"

text \<open>
  \<^verbatim>\<open>s.indexOf(sub)\<close>: the position of the first occurrence of \<open>sub\<close> in \<open>s\<close>,
  or -1 when there is none.
\<close>

fun indexOf :: "string \<Rightarrow> string \<Rightarrow> int" where
  "indexOf [] sub = (if sub = [] then 0 else - 1)"
| "indexOf (c # s) sub =
     (if prefix sub (c # s) then 0
      else (let i = indexOf s sub in if i = - 1 then - 1 else i + 1))"


section \<open>Batch requests and their commit order (nic model, common code)\<close>

text \<open>
  One request of a Moray batch, as \<^verbatim>\<open>IP.prototype.batch\<close> and the other models
  build it: \<^verbatim>\<open>{ bucket, key, operation, value, options: { etag } }\<close>. \<open>options\<close>
  is \<open>None\<close> when the request has no \<^verbatim>\<open>options\<close> property, and otherwise holds
  the expected etag (null or a string).
\<close>

record request =
  bucket :: string
  key :: string
  operation :: string
  val :: obj
  options :: "jsval option"

text \<open>\<^verbatim>\<open>compareRequests(a, b)\<close>, the comparator handed to \<^verbatim>\<open>Array.prototype.sort\<close>.\<close>

definition compareRequests :: "request \<Rightarrow> request \<Rightarrow> int" where
  "compareRequests a b =
     (if bucket a < bucket b then 1
      else if bucket a > bucket b then - 1
      else if key a < key b then - 1
      else if key a > key b then 1
      else 0)"

text \<open>
  \<^verbatim>\<open>Array.prototype.sort(cmp)\<close> belongs to the language, not to the repository. It
  is modelled as insertion sort: \<open>x\<close> is placed before the first element \<open>y\<close> with
  \<open>cmp x y \<le> 0\<close>, which keeps elements that compare equal in their original
  order.
\<close>

fun insert_by :: "('a \<Rightarrow> 'a \<Rightarrow> int) \<Rightarrow> 'a \<Rightarrow> 'a list \<Rightarrow> 'a list" where
  "insert_by cmp x [] = [x]"
| "insert_by cmp x (y # ys) = (if cmp x y \<le> 0 then x # y # ys else y # insert_by cmp x ys)"

fun array_sort :: "('a \<Rightarrow> 'a \<Rightarrow> int) \<Rightarrow> 'a list \<Rightarrow> 'a list" where
  "array_sort cmp [] = []"
| "array_sort cmp (x # xs) = insert_by cmp x (array_sort cmp xs)"

text \<open>
  The list \<^verbatim>\<open>batch\<close> that \<^verbatim>\<open>commitBatch\<close> hands to \<^verbatim>\<open>moray.batch\<close>: the requests
  whose bucket name has no occurrence of \<^verbatim>\<open>portolan\<close> are sorted with
  \<open>compareRequests\<close>, the others follow in the order of \<^verbatim>\<open>opts.batch\<close>.
\<close>

definition commitBatch_batch :: "request list \<Rightarrow> request list" where
  "commitBatch_batch batch =
     (let nbatch = filter (\<lambda>r. indexOf (bucket r) ''portolan'' = - 1) batch;
          pbatch = filter (\<lambda>r. \<not> indexOf (bucket r) ''portolan'' = - 1) batch
      in array_sort compareRequests nbatch @ pbatch)"


section \<open>The IP model: common code\<close>

text \<open>
  An address object of \<^verbatim>\<open>util/ip\<close> (the module is not part of the sources at hand).
  The model observes it through the two methods the IP model calls:
  \<^verbatim>\<open>toLong()\<close> and \<^verbatim>\<open>toString()\<close>.
\<close>

record ipaddr =
  toLong :: nat
  toString :: string

text \<open>
  What \<^verbatim>\<open>params.ip\<close> can hold: an address object already, or a raw value (a
  number or a string) still to be parsed.
\<close>

datatype ipval = Addr ipaddr | RawVal jsval

text \<open>
  \<^verbatim>\<open>util_ip.toIPAddr(v)\<close>: an address object is returned as it is (\<^verbatim>\<open>getIP\<close> relies
  on this when it hands the parsed address to the constructor); the parser of raw
  values is the parameter \<open>parse\<close>, \<open>None\<close> standing for the result null.
\<close>

fun toIPAddr :: "(jsval \<Rightarrow> ipaddr option) \<Rightarrow> ipval \<Rightarrow> ipaddr option" where
  "toIPAddr parse (Addr a) = Some a"
| "toIPAddr parse (RawVal v) = parse v"

text \<open>The fields of a network object that the IP and network pool models read.\<close>

record network =
  uuid :: string
  nic_tag :: string
  ip_use_strings :: bool

text \<open>
  The \<^verbatim>\<open>params\<close> argument of \<^verbatim>\<open>new IP(params)\<close>. The constructor asserts that
  \<^verbatim>\<open>params.network\<close> is an object and \<^verbatim>\<open>params.network_uuid\<close> a string: both
  are typed fields here. \<open>p_props\<close> holds the other own properties
  (\<^verbatim>\<open>ipaddr\<close>, \<^verbatim>\<open>reserved\<close>, \<^verbatim>\<open>etag\<close>, \<^verbatim>\<open>use_strings\<close>, \<^verbatim>\<open>belongs_to_type\<close>,
  \<^verbatim>\<open>belongs_to_uuid\<close>, \<^verbatim>\<open>owner_uuid\<close>, \<^verbatim>\<open>free\<close>, ...).
\<close>

record ip_params =
  p_network :: network
  p_network_uuid :: string
  p_ip :: ipval
  p_props :: obj

text \<open>
  An IP object: \<open>network\<close>, \<open>network_uuid\<close>, \<open>address\<close> are
  \<^verbatim>\<open>this.params.network\<close>, \<^verbatim>\<open>this.params.network_uuid\<close>, \<^verbatim>\<open>this.params.ip\<close>;
  \<open>params\<close> holds the other own properties of \<^verbatim>\<open>this.params\<close>.
\<close>

record IP =
  network :: network
  network_uuid :: string
  address :: ipaddr
  params :: obj
  etag :: jsval
  use_strings :: jsval

text \<open>
  The errors the modelled functions throw or hand to their callbacks.
  \<open>InvalidParam field message invalid\<close> is the error that \<^verbatim>\<open>errors.invalidParam\<close>
  builds, with the list a caller assigns to \<^verbatim>\<open>err.invalid\<close> when it does.
\<close>

datatype error =
    AssertionError
  | TypeError
  | InvalidArgumentError string ipval
  | ResourceNotFoundError string
  | ObjectNotFoundError
  | EtagConflictError
  | NotSupportedError
  | InvalidParam string string "string list option"

text \<open>\<^verbatim>\<open>err.statusCode\<close>: set on the restify errors only.\<close>

fun statusCode :: "error \<Rightarrow> nat option" where
  "statusCode (ResourceNotFoundError m) = Some 404"
| "statusCode (InvalidArgumentError m v) = Some 409"
| "statusCode e = None"

definition OPTIONAL_PARAMS :: "string list" where
  "OPTIONAL_PARAMS = [''belongs_to_type'', ''belongs_to_uuid'', ''owner_uuid'']"

definition BUCKET_version :: int where
  "BUCKET_version = 2"

text \<open>The constructor \<^verbatim>\<open>IP(params)\<close>; \<^verbatim>\<open>assert.ok(this.params.ip)\<close> can throw.\<close>

definition new_IP :: "(jsval \<Rightarrow> ipaddr option) \<Rightarrow> ip_params \<Rightarrow> error + IP" where
  "new_IP parse p =
     (let props = p_props p;
          ip = (if truthy (getp props ''ipaddr'')
                then toIPAddr parse (RawVal (getp props ''ipaddr''))
                else toIPAddr parse (p_ip p))
      in case ip of
           None \<Rightarrow> Inl AssertionError
         | Some a \<Rightarrow>
             Inr \<lparr> network = p_network p,
                   network_uuid = p_network_uuid p,
                   address = a,
                   params =
                     (if hasOwnProperty props ''reserved'' \<and> typeof (getp props ''reserved'') \<noteq> ''boolean''
                      then props(''reserved'' \<mapsto> JBool (getp props ''reserved'' = JStr ''true''))
                      else props),
                   etag = (if hasOwnProperty props ''etag'' then getp props ''etag'' else JNull),
                   use_strings =
                     (if truthy (getp props ''use_strings'') then getp props ''use_strings''
                      else JBool (ip_use_strings (p_network p))) \<rparr>)"

text \<open>\<^verbatim>\<open>getIPKey(use_strings, ipaddr)\<close>\<close>

definition getIPKey :: "jsval \<Rightarrow> ipaddr \<Rightarrow> string" where
  "getIPKey us a = (if \<not> truthy us then decimal (toLong a) else toString a)"

text \<open>\<^verbatim>\<open>bucketName(networkUUID)\<close>: \<^verbatim>\<open>napi_ips_\<close> and the UUID with every dash replaced.\<close>

definition bucketName :: "string \<Rightarrow> string" where
  "bucketName networkUUID =
     ''napi_ips_'' @ map (\<lambda>c. if c = CHR ''-'' then CHR ''_'' else c) networkUUID"

text \<open>\<^verbatim>\<open>IP.prototype.key\<close>\<close>

definition ipKey :: "IP \<Rightarrow> string" where
  "ipKey self = getIPKey (use_strings self) (address self)"

text \<open>\<^verbatim>\<open>IP.prototype.raw\<close>: the form stored in Moray.\<close>

definition ipRaw :: "IP \<Rightarrow> obj" where
  "ipRaw self =
     (let raw0 = [''reserved'' \<mapsto> JBool (truthy (getp (params self) ''reserved'')),
                  ''use_strings'' \<mapsto> use_strings self];
          raw1 = (if truthy (use_strings self)
                  then raw0(''ipaddr'' \<mapsto> JStr (toString (address self)), ''v'' \<mapsto> JNum BUCKET_version)
                  else raw0(''ip'' \<mapsto> JNum (int (toLong (address self)))))
      in foldl (\<lambda>raw param.
                  if hasOwnProperty (params self) param
                  then raw(param \<mapsto> getp (params self) param)
                  else raw)
           raw1 OPTIONAL_PARAMS)"

text \<open>\<^verbatim>\<open>IP.prototype.batch\<close>\<close>

definition ipBatch :: "IP \<Rightarrow> request" where
  "ipBatch self =
     \<lparr> bucket = bucketName (network_uuid self),
       key = ipKey self,
       operation = ''put'',
       val = ipRaw self,
       options = Some (etag self) \<rparr>"

text \<open>\<^verbatim>\<open>IP.prototype.unassignBatch\<close>\<close>

definition unassignIP :: "IP \<Rightarrow> request" where
  "unassignIP self =
     (let batchObj = ipBatch self;
          value0 = val batchObj;
          value1 = (if \<not> truthy (getp (params self) ''reserved'')
                    then delete_prop value0 ''owner_uuid'' else value0);
          value2 = delete_prop value1 ''belongs_to_type'';
          value3 = delete_prop value2 ''belongs_to_uuid''
      in batchObj\<lparr> val := value3 \<rparr>)"

text \<open>
  \<^verbatim>\<open>IP.prototype.provisionable\<close>; \<open>UFDS_ADMIN_UUID\<close> is
  \<^verbatim>\<open>constants.UFDS_ADMIN_UUID\<close>, read from the configuration.
\<close>

definition ipProvisionable :: "string \<Rightarrow> IP \<Rightarrow> bool" where
  "ipProvisionable UFDS_ADMIN_UUID self =
     (if \<not> truthy (getp (params self) ''belongs_to_uuid'') \<or>
         \<not> truthy (getp (params self) ''belongs_to_type'') then True
      else if getp (params self) ''belongs_to_type'' = JStr ''other'' \<and>
              getp (params self) ''belongs_to_uuid'' = JStr UFDS_ADMIN_UUID then True
      else False)"

text \<open>\<^verbatim>\<open>IP.prototype.serialize\<close>: the form returned by the API.\<close>

definition ipSerialize :: "IP \<Rightarrow> obj" where
  "ipSerialize self =
     (let ser = [''ip'' \<mapsto> JStr (toString (address self)),
                 ''network_uuid'' \<mapsto> JStr (uuid (network self)),
                 ''reserved'' \<mapsto> JBool (if truthy (getp (params self) ''reserved'') then True else False),
                 ''free'' \<mapsto> JBool (if truthy (getp (params self) ''reserved'') then False else True)]
      in foldl (\<lambda>ser param.
                  if hasOwnProperty (params self) param
                  then ser(param \<mapsto> getp (params self) param, ''free'' \<mapsto> JBool False)
                  else ser)
           ser OPTIONAL_PARAMS)"


section \<open>The store\<close>

text \<open>
  Modelled from the spec: the store (Moray) is an external collaborator, known
  through its interface only. A row holds a value and a version token (etag).
  \<^verbatim>\<open>put\<close> with an expected token fails with a version conflict unless the token
  is the one of the current row; the expected token null stands for "no row yet";
  without an expected token the write is unconditional. A write returns a new
  token, drawn here from a counter. A batch is all-or-nothing.
\<close>

record row =
  r_value :: obj
  r_etag :: string

record moray =
  rows :: "string \<times> string \<Rightarrow> row option"
  counter :: nat

fun etag_ok :: "row option \<Rightarrow> jsval option \<Rightarrow> bool" where
  "etag_ok cur None = True"
| "etag_ok cur (Some JUndefined) = True"
| "etag_ok cur (Some JNull) = (cur = None)"
| "etag_ok cur (Some e) = (case cur of None \<Rightarrow> False | Some r \<Rightarrow> e = JStr (r_etag r))"

definition getObject :: "moray \<Rightarrow> string \<Rightarrow> string \<Rightarrow> error + row" where
  "getObject st b k = (case rows st (b, k) of None \<Rightarrow> Inl ObjectNotFoundError | Some r \<Rightarrow> Inr r)"

definition putObject :: "moray \<Rightarrow> string \<Rightarrow> string \<Rightarrow> obj \<Rightarrow> jsval option \<Rightarrow> error + string \<times> moray" where
  "putObject st b k v opt =
     (if etag_ok (rows st (b, k)) opt
      then (let e = decimal (counter st)
            in Inr (e, st\<lparr> rows := (rows st)((b, k) \<mapsto> \<lparr> r_value = v, r_etag = e \<rparr>),
                          counter := Suc (counter st) \<rparr>))
      else Inl EtagConflictError)"

definition delObject :: "moray \<Rightarrow> string \<Rightarrow> string \<Rightarrow> error + string \<times> moray" where
  "delObject st b k =
     (case rows st (b, k) of
        None \<Rightarrow> Inl ObjectNotFoundError
      | Some r \<Rightarrow> Inr (r_etag r, st\<lparr> rows := (rows st)((b, k) := None) \<rparr>))"

text \<open>One request of a batch; the operations of the interface are put and delete.\<close>

definition apply_request :: "moray \<Rightarrow> request \<Rightarrow> error + string \<times> moray" where
  "apply_request st r =
     (if operation r = ''put'' then putObject st (bucket r) (key r) (val r) (options r)
      else if operation r = ''delete'' then delObject st (bucket r) (key r)
      else Inl NotSupportedError)"

fun batch_steps :: "moray \<Rightarrow> request list \<Rightarrow> error + string list \<times> moray" where
  "batch_steps st [] = Inr ([], st)"
| "batch_steps st (r # rs) =
     (case apply_request st r of
        Inl e \<Rightarrow> Inl e
      | Inr (et, st1) \<Rightarrow>
          (case batch_steps st1 rs of
             Inl e \<Rightarrow> Inl e
           | Inr (ets, st2) \<Rightarrow> Inr (et # ets, st2)))"

text \<open>\<^verbatim>\<open>moray.batch(requests, cb)\<close>: the error, or the etags and the new store.\<close>

definition moray_batch :: "moray \<Rightarrow> request list \<Rightarrow> error + string list \<times> moray" where
  "moray_batch st reqs = batch_steps st reqs"


section \<open>Moray API convenience wrappers\<close>

text \<open>A bucket schema object: \<^verbatim>\<open>{ desc, name, schema: { index } }\<close>, the index by its keys.\<close>

record bucket_obj =
  b_desc :: string
  b_name :: string
  b_index :: "string list"

text \<open>\<^verbatim>\<open>getObj(moray, bucket, key, callback)\<close>\<close>

definition getObj :: "moray \<Rightarrow> bucket_obj \<Rightarrow> string \<Rightarrow> error + row" where
  "getObj st bkt k =
     (case getObject st (b_name bkt) k of
        Inl err \<Rightarrow>
          (if err = ObjectNotFoundError
           then Inl (ResourceNotFoundError (b_desc bkt @ '' not found''))
           else Inl err)
      | Inr res \<Rightarrow> Inr res)"

text \<open>
  \<^verbatim>\<open>updateObj(opts, callback)\<close>; \<open>uo_val\<close> lists the properties of \<^verbatim>\<open>opts.val\<close>.
  The result is \<^verbatim>\<open>rec.value\<close>, the only part of the record its callers read. Both
  writes are made without an expected etag.
\<close>

record updateObj_opts =
  uo_bucket :: bucket_obj
  uo_key :: string
  uo_remove :: bool
  uo_replace :: bool
  uo_val :: "(string \<times> jsval) list"

definition updateObj :: "moray \<Rightarrow> updateObj_opts \<Rightarrow> error + obj \<times> moray" where
  "updateObj st opts =
     (if uo_replace opts then
        (case putObject st (b_name (uo_bucket opts)) (uo_key opts) (map_of (uo_val opts)) None of
           Inl err2 \<Rightarrow> Inl err2
         | Inr (e, st') \<Rightarrow> Inr (map_of (uo_val opts), st'))
      else
        (case getObj st (uo_bucket opts) (uo_key opts) of
           Inl err \<Rightarrow> Inl err
         | Inr res \<Rightarrow>
             (let value' = foldl (\<lambda>v (k, x). if uo_remove opts then delete_prop v k else v(k \<mapsto> x))
                             (r_value res) (uo_val opts)
              in case putObject st (b_name (uo_bucket opts)) (uo_key opts) value' None of
                   Inl err2 \<Rightarrow> Inl err2
                 | Inr (e, st') \<Rightarrow> Inr (value', st'))))"


section \<open>The IP model: operations\<close>

definition BUCKET :: bucket_obj where
  "BUCKET = \<lparr> b_desc = ''IP'', b_name = [],
     b_index = [''belongs_to_type'', ''belongs_to_uuid'', ''owner_uuid'', ''ip'', ''ipaddr'',
                ''reserved'', ''v''] \<rparr>"

text \<open>\<^verbatim>\<open>getBucketObj(networkUUID)\<close>\<close>

definition getBucketObj :: "string \<Rightarrow> bucket_obj" where
  "getBucketObj networkUUID = BUCKET\<lparr> b_name := bucketName networkUUID \<rparr>"

text \<open>
  A record read from the store, handed to the constructor: \<^verbatim>\<open>rec.value\<close> with
  \<^verbatim>\<open>network\<close> and \<^verbatim>\<open>network_uuid\<close> set by the caller.
\<close>

definition row_params :: "network \<Rightarrow> string \<Rightarrow> obj \<Rightarrow> ip_params" where
  "row_params net net_uuid v =
     \<lparr> p_network = net, p_network_uuid = net_uuid,
       p_ip = RawVal (getp v ''ip''), p_props = delete_prop v ''ip'' \<rparr>"

text \<open>\<^verbatim>\<open>getIP(opts, callback)\<close>\<close>

record getIP_opts =
  g_ip :: ipval
  g_network :: network
  g_network_uuid :: string
  g_returnObject :: bool

definition getIP :: "(jsval \<Rightarrow> ipaddr option) \<Rightarrow> moray \<Rightarrow> getIP_opts \<Rightarrow> error + IP" where
  "getIP parse st opts =
     (case toIPAddr parse (g_ip opts) of
        None \<Rightarrow> Inl (InvalidArgumentError ''Invalid IP %s'' (g_ip opts))
      | Some ip \<Rightarrow>
          (let ipBucket = getBucketObj (g_network_uuid opts);
               k = getIPKey (JBool (ip_use_strings (g_network opts))) ip
           in case getObj st ipBucket k of
                Inl err \<Rightarrow>
                  (if statusCode err = Some 404 then
                     (if g_returnObject opts then
                        new_IP parse
                          \<lparr> p_network = g_network opts,
                            p_network_uuid = g_network_uuid opts,
                            p_ip = Addr ip,
                            p_props = [''etag'' \<mapsto> JNull, ''free'' \<mapsto> JBool True,
                                       ''reserved'' \<mapsto> JBool False] \<rparr>
                      else Inl (ResourceNotFoundError ''IP not found''))
                   else Inl err)
              | Inr rec \<Rightarrow>
                  new_IP parse
                    (row_params (g_network opts) (g_network_uuid opts)
                       ((r_value rec)(''etag'' \<mapsto> JStr (r_etag rec))))))"

text \<open>
  \<^verbatim>\<open>createIP(opts, callback)\<close>; \<open>validate\<close> is
  \<^verbatim>\<open>validate.params(CREATE_SCHEMA, null, params, ...)\<close> of \<^verbatim>\<open>util/validate\<close>, which
  is not part of the sources at hand.
\<close>

definition createIP ::
  "(ip_params \<Rightarrow> error + ip_params) \<Rightarrow> (jsval \<Rightarrow> ipaddr option) \<Rightarrow> moray \<Rightarrow> ip_params
     \<Rightarrow> (error + IP) \<times> moray" where
  "createIP validate parse st ps =
     (case validate ps of
        Inl validationErr \<Rightarrow> (Inl validationErr, st)
      | Inr validated \<Rightarrow>
          (case new_IP parse validated of
             Inl err \<Rightarrow> (Inl err, st)
           | Inr ip \<Rightarrow>
               (let k = ipKey ip;
                    ipBucket = getBucketObj (uuid (p_network validated))
                in case putObject st (b_name ipBucket) k (ipRaw ip) (Some JNull) of
                     Inl err \<Rightarrow> (Inl err, st)
                   | Inr (res_etag, st') \<Rightarrow> (Inr (ip\<lparr> etag := JStr res_etag \<rparr>), st'))))"

text \<open>\<^verbatim>\<open>array.map(f)\<close> with an \<open>f\<close> that can throw: the first exception ends the loop.\<close>

fun map_throw :: "('a \<Rightarrow> error + 'b) \<Rightarrow> 'a list \<Rightarrow> error + 'b list" where
  "map_throw f [] = Inr []"
| "map_throw f (x # xs) =
     (case f x of
        Inl e \<Rightarrow> Inl e
      | Inr y \<Rightarrow> (case map_throw f xs of Inl e \<Rightarrow> Inl e | Inr ys \<Rightarrow> Inr (y # ys)))"

text \<open>\<^verbatim>\<open>batchCreateIPs(app, log, params, callback)\<close>\<close>

record batchCreate_params =
  bc_network_uuid :: string
  bc_batch :: "ip_params list"

text \<open>The local \<^verbatim>\<open>batchData\<close>, with the IP objects built on the way.\<close>

definition batchCreateIPs_batchData ::
  "(jsval \<Rightarrow> ipaddr option) \<Rightarrow> batchCreate_params \<Rightarrow> error + (IP list \<times> request list)" where
  "batchCreateIPs_batchData parse ps =
     (let bkt = getBucketObj (bc_network_uuid ps)
      in case map_throw (new_IP parse) (bc_batch ps) of
           Inl e \<Rightarrow> Inl e
         | Inr ips \<Rightarrow>
             Inr (ips,
                  map (\<lambda>ip. \<lparr> bucket = b_name bkt, key = ipKey ip, operation = ''put'',
                              val = ipRaw ip, options = None \<rparr>) ips))"

definition batchCreateIPs ::
  "(jsval \<Rightarrow> ipaddr option) \<Rightarrow> moray \<Rightarrow> batchCreate_params \<Rightarrow> (error + IP list) \<times> moray" where
  "batchCreateIPs parse st ps =
     (case batchCreateIPs_batchData parse ps of
        Inl e \<Rightarrow> (Inl e, st)
      | Inr (ips, batchData) \<Rightarrow>
          (case moray_batch st batchData of
             Inl err \<Rightarrow> (Inl err, st)
           | Inr (etags, st') \<Rightarrow> (Inr ips, st')))"

text \<open>\<^verbatim>\<open>deleteIP(opts, callback)\<close>\<close>

record deleteIP_opts =
  d_ip :: ipval
  d_network :: network
  d_existingIP :: IP

text \<open>The local \<^verbatim>\<open>val\<close> of \<^verbatim>\<open>deleteIP\<close>, as written to the store.\<close>

definition deleteIP_val :: "bool \<Rightarrow> ipaddr \<Rightarrow> obj" where
  "deleteIP_val us ip =
     (let val0 = [''reserved'' \<mapsto> JBool False]
      in if us then val0(''ipaddr'' \<mapsto> JStr (toString ip))
         else val0(''ip'' \<mapsto> JNum (int (toLong ip))))"

definition deleteIP ::
  "(jsval \<Rightarrow> ipaddr option) \<Rightarrow> moray \<Rightarrow> deleteIP_opts \<Rightarrow> (error + IP) \<times> moray" where
  "deleteIP parse st opts =
     (case toIPAddr parse (d_ip opts) of
        None \<Rightarrow> (Inl (InvalidArgumentError ''Invalid IP \"%s\"'' (d_ip opts)), st)
      | Some ip \<Rightarrow>
          (let us = ip_use_strings (d_network opts);
               bkt = bucketName (uuid (d_network opts));
               k = getIPKey (JBool us) ip;
               val0 = deleteIP_val us ip
           in case putObject st bkt k val0 (Some (etag (d_existingIP opts))) of
                Inl err \<Rightarrow> (Inl err, st)
              | Inr (res_etag, st') \<Rightarrow>
                  (new_IP parse
                     (row_params (d_network opts) (uuid (d_network opts))
                        (val0(''etag'' \<mapsto> JStr res_etag))),
                   st')))"

text \<open>
  \<^verbatim>\<open>updateIP(opts, callback)\<close>. The schema handed to \<^verbatim>\<open>validate.params\<close> is
  kept by the names of its fields; \<open>validate\<close> is \<^verbatim>\<open>validate.params\<close> of
  \<^verbatim>\<open>util/validate\<close>, which is not part of the sources at hand, and yields the
  validated properties (the network object apart, which \<^verbatim>\<open>validateNetworkObj\<close>
  returns unchanged and \<^verbatim>\<open>updateIP\<close> deletes from the value to store).
\<close>

record schema =
  required :: "string list"
  optional :: "string list"
  after :: "string list"

record updateIP_opts =
  u_ip :: ipval
  u_network :: network
  u_network_uuid :: string
  u_params :: "(string \<times> jsval) list"
  u_oldIP :: "obj option"
  u_existingIP :: IP

text \<open>\<^verbatim>\<open>o.k\<close> on a property list.\<close>

definition getl :: "(string \<times> jsval) list \<Rightarrow> string \<Rightarrow> jsval" where
  "getl ps k = getp (map_of ps) k"

text \<open>Moving a field of the schema from optional to required.\<close>

definition require_field :: "string \<Rightarrow> schema \<Rightarrow> schema" where
  "require_field f sch =
     sch\<lparr> required := required sch @ [f], optional := filter (\<lambda>g. g \<noteq> f) (optional sch) \<rparr>"

definition updateIP_schema :: "updateIP_opts \<Rightarrow> schema" where
  "updateIP_schema opts =
     (let validateParams =
            \<lparr> required = [''network''],
              optional = [''belongs_to_type'', ''belongs_to_uuid'', ''check_owner'', ''owner_uuid'',
                          ''reserved'', ''unassign'', ''free''],
              after = [''validateNetworkOwner'', ''validateFreeUnassign''] \<rparr>;
          ps = u_params opts
      in case u_oldIP opts of
           None \<Rightarrow> validateParams
         | Some oldIP \<Rightarrow>
             (let s1 = (if truthy (getl ps ''belongs_to_uuid'') \<and> \<not> truthy (getp oldIP ''belongs_to_type'')
                        then require_field ''belongs_to_type'' validateParams else validateParams);
                  s2 = (if truthy (getl ps ''belongs_to_type'') \<and> \<not> truthy (getp oldIP ''belongs_to_uuid'')
                        then require_field ''belongs_to_uuid'' s1 else s1);
                  s3 = (if \<not> truthy (getp oldIP ''owner_uuid'') \<and>
                           (truthy (getl ps ''belongs_to_type'') \<or> truthy (getl ps ''belongs_to_uuid''))
                        then require_field ''owner_uuid'' s2 else s2)
              in s3))"

definition updateIP ::
  "(schema \<Rightarrow> (string \<times> jsval) list \<Rightarrow> error + (string \<times> jsval) list) \<Rightarrow>
   (jsval \<Rightarrow> ipaddr option) \<Rightarrow> moray \<Rightarrow> updateIP_opts \<Rightarrow> (error + IP) \<times> moray" where
  "updateIP validate parse st opts =
     (case toIPAddr parse (u_ip opts) of
        None \<Rightarrow> (Inl (InvalidArgumentError ''Invalid IP \"%s\"'' (u_ip opts)), st)
      | Some ip \<Rightarrow>
          (case validate (updateIP_schema opts) (u_params opts) of
             Inl validationErr \<Rightarrow> (Inl validationErr, st)
           | Inr validatedParams \<Rightarrow>
               (let k = getIPKey (JBool (ip_use_strings (u_network opts))) ip;
                    unassign = truthy (getl validatedParams ''unassign'');
                    updateOpts =
                      \<lparr> uo_bucket = getBucketObj (u_network_uuid opts),
                        uo_key = k,
                        uo_remove = unassign,
                        uo_replace = False,
                        uo_val = (if unassign
                                  then [(''belongs_to_type'', JBool True), (''belongs_to_uuid'', JBool True)]
                                  else validatedParams) \<rparr>
                in case updateObj st updateOpts of
                     Inl err \<Rightarrow> (Inl err, st)
                   | Inr (rec_value, st') \<Rightarrow>
                       (new_IP parse (row_params (u_network opts) (u_network_uuid opts) rec_value),
                        st'))))"


section \<open>The network pool model\<close>

definition MAX_NETS :: nat where
  "MAX_NETS = 64"

text \<open>The accumulators of \<^verbatim>\<open>validateNetworks\<close>; \<open>tag\<close> is \<open>None\<close> while undefined.\<close>

record vn_state =
  nets :: "network list"
  notFound :: "string list"
  tag :: "string option"
  tagsNotMatching :: "string list"
  validated :: "string list"

definition vn_init :: vn_state where
  "vn_init = \<lparr> nets = [], notFound = [], tag = None, tagsNotMatching = [], validated = [] \<rparr>"

text \<open>
  The callback of \<^verbatim>\<open>mod_net.get\<close> inside \<^verbatim>\<open>_validateNetworkUUID\<close>, for one
  UUID. \<open>net_get\<close> is the lookup of the network model (not part of the sources at
  hand): \<open>None\<close> when it reports an error or no network.
\<close>

definition validateNetworkUUID :: "(string \<Rightarrow> network option) \<Rightarrow> vn_state \<Rightarrow> string \<Rightarrow> vn_state" where
  "validateNetworkUUID net_get st u =
     (case net_get u of
        None \<Rightarrow> st\<lparr> notFound := notFound st @ [u] \<rparr>
      | Some res \<Rightarrow>
          (let tag' = (case tag st of None \<Rightarrow> nic_tag res | Some t \<Rightarrow> t)
           in if nic_tag res \<noteq> tag'
              then st\<lparr> tag := Some tag', tagsNotMatching := tagsNotMatching st @ [u] \<rparr>
              else st\<lparr> tag := Some tag', validated := validated st @ [u], nets := nets st @ [res] \<rparr>))"

text \<open>The value \<^verbatim>\<open>validateNetworks\<close> returns on success: \<^verbatim>\<open>{ _networks: nets, [name]: validated }\<close>.\<close>

record vn_result =
  res_networks :: "network list"
  res_name :: string
  res_validated :: "string list"

text \<open>
  \<^verbatim>\<open>validateNetworks(app, log, name, list, callback)\<close>. \<open>uuids\<close> is
  \<^verbatim>\<open>util_common.arrayify(list)\<close>. \<^verbatim>\<open>vasync.forEachParallel\<close> starts one lookup
  per UUID and the callbacks run as the lookups complete: \<open>sched\<close> gives the
  order of completion. \<open>POOL_TAGS_MATCH_MSG\<close> is the constant of that name of
  \<^verbatim>\<open>util/constants\<close>. The result comes with the list of the UUIDs that were looked
  up.
\<close>

definition validateNetworks ::
  "(string \<Rightarrow> network option) \<Rightarrow> (string list \<Rightarrow> string list) \<Rightarrow> string \<Rightarrow> string \<Rightarrow> string list
     \<Rightarrow> (error + vn_result) \<times> string list" where
  "validateNetworks net_get sched POOL_TAGS_MATCH_MSG name uuids =
     (if length uuids > MAX_NETS then
        (Inl (InvalidParam name (''maximum '' @ decimal MAX_NETS @ '' networks per network pool'') None), [])
      else
        (let st = foldl (validateNetworkUUID net_get) vn_init (sched uuids)
         in (if length (notFound st) \<noteq> 0 then
               Inl (InvalidParam name
                      (''unknown network'' @ (if length (notFound st) = 1 then '''' else ''s''))
                      (Some (notFound st)))
             else if length (tagsNotMatching st) \<noteq> 0 then
               Inl (InvalidParam name POOL_TAGS_MATCH_MSG None)
             else
               Inr \<lparr> res_networks = nets st, res_name = name, res_validated = validated st \<rparr>,
             uuids)))"


section \<open>The LDAP filter of the Moray wrappers\<close>

text \<open>
  The own enumerable properties of a value, in the order of \<^verbatim>\<open>Object.keys\<close> and
  \<^verbatim>\<open>for ... in\<close>: those of an object, the indices of an array, none for the
  other values that reach the places where the model enumerates.
\<close>

fun own_props :: "jsval \<Rightarrow> (string \<times> jsval) list" where
  "own_props (JObj ps) = ps"
| "own_props (JArr xs) = zip (map decimal [0..<length xs]) xs"
| "own_props v = []"

text \<open>\<^verbatim>\<open>v.hasOwnProperty(k)\<close> and \<^verbatim>\<open>v[k]\<close> for an own enumerable property.\<close>

definition has_own :: "jsval \<Rightarrow> string \<Rightarrow> bool" where
  "has_own v k = hasOwnProperty (map_of (own_props v)) k"

definition get_own :: "jsval \<Rightarrow> string \<Rightarrow> jsval" where
  "get_own v k = getp (map_of (own_props v)) k"

text \<open>
  Modelled from the spec: \<^verbatim>\<open>util_common.hashEmpty\<close> is not part of the sources at
  hand; by its name and its use it is true of an object without properties.
\<close>

definition hashEmpty :: "jsval \<Rightarrow> bool" where
  "hashEmpty v = (own_props v = [])"

text \<open>
  \<^verbatim>\<open>util.format('%s', v)\<close> for the values that reach it, which are primitive:
  \<^verbatim>\<open>String(v)\<close>. Null, arrays and objects take the other branch of
  \<open>filter_step\<close>, so the last three equations are never used.
\<close>

fun format_s :: "jsval \<Rightarrow> string" where
  "format_s (JStr s) = s"
| "format_s (JNum n) = decimal_int n"
| "format_s (JBool b) = (if b then ''true'' else ''false'')"
| "format_s JUndefined = ''undefined''"
| "format_s JNull = ''null''"
| "format_s (JArr xs) = ''[object Array]''"
| "format_s (JObj ps) = ''[object Object]''"

text \<open>The white space of \<^verbatim>\<open>\s\<close> among the code units below 256.\<close>

definition is_space :: "char \<Rightarrow> bool" where
  "is_space c = (of_char c \<in> {9, 10, 11, 12, 13, 32, 160 :: nat})"

text \<open>The pieces of a string between its commas.\<close>

fun split_comma :: "string \<Rightarrow> string list" where
  "split_comma [] = [[]]"
| "split_comma (c # s) =
     (if c = CHR '','' then [] # split_comma s
      else (case split_comma s of [] \<Rightarrow> [[c]] | p # ps \<Rightarrow> (c # p) # ps))"

text \<open>
  \<^verbatim>\<open>s.split(/\s*,\s*/)\<close>: the pieces between the commas, without the white space
  that precedes or follows a comma.
\<close>

definition split_list :: "string \<Rightarrow> string list" where
  "split_list s =
     (let ps = split_comma s; n = length ps
      in map (\<lambda>i. (let p = ps ! i;
                        p1 = (if i > 0 then dropWhile is_space p else p);
                        p2 = (if i < n - 1 then rev (dropWhile is_space (rev p1)) else p1)
                    in p2))
           [0..<n])"

text \<open>
  The loop over the members of a list-valued parameter: \<^verbatim>\<open>substr\<close> is a method of
  strings only, any other member ends the call with a TypeError.
\<close>

fun or_clauses :: "string \<Rightarrow> jsval list \<Rightarrow> error + string list" where
  "or_clauses i [] = Inr []"
| "or_clauses i (JStr s # xs) =
     (case or_clauses i xs of
        Inl e \<Rightarrow> Inl e
      | Inr cs \<Rightarrow>
          Inr ((if take 1 s = ''!''
                then ''(!('' @ i @ ''='' @ drop 1 s @ ''))''
                else ''('' @ i @ ''='' @ s @ '')'') # cs))"
| "or_clauses i (x # xs) = Inl TypeError"

text \<open>One round of the \<^verbatim>\<open>reduce\<close> over \<^verbatim>\<open>Object.keys(inObj)\<close>.\<close>

definition filter_step :: "jsval \<Rightarrow> bucket_obj option \<Rightarrow> error + string list \<Rightarrow> string \<Rightarrow> error + string list" where
  "filter_step inObj bkt acc i =
     (case acc of
        Inl e \<Rightarrow> Inl e
      | Inr arr \<Rightarrow>
          (if (case bkt of None \<Rightarrow> False | Some b \<Rightarrow> i \<notin> set (b_index b)) then Inr arr
           else
             (let v0 = get_own inObj i;
                  v = (case v0 of
                         JStr s \<Rightarrow> if indexOf s '','' \<noteq> - 1 then JArr (map JStr (split_list s)) else v0
                       | _ \<Rightarrow> v0)
              in if typeof v = ''object''
                 then (case or_clauses i (map snd (own_props v)) of
                         Inl e \<Rightarrow> Inl e
                       | Inr cs \<Rightarrow> Inr (arr @ [''(|''] @ cs @ ['')'']))
                 else Inr (arr @ [''('' @ i @ ''='' @ format_s v @ '')'']))))"

text \<open>
  \<^verbatim>\<open>ldapFilter(inObj, bucket)\<close>. The test of the \<^verbatim>\<open>filter\<close> property is
  \<^verbatim>\<open>typeof (inObj.filter === 'string')\<close>: the type of a comparison, which is the
  non-empty string \<^verbatim>\<open>boolean\<close>.
\<close>

definition ldapFilter :: "jsval \<Rightarrow> bucket_obj option \<Rightarrow> error + jsval" where
  "ldapFilter inObj bkt =
     (if \<not> truthy inObj then Inr (JStr [])
      else if typeof inObj = ''string'' then Inr inObj
      else if hashEmpty inObj then Inr (JStr [])
      else if has_own inObj ''filter'' \<and>
              truthy (JStr (typeof (JBool (get_own inObj ''filter'' = JStr ''string''))))
           then Inr (get_own inObj ''filter'')
      else
        (case foldl (filter_step inObj bkt) (Inr []) (map fst (own_props inObj)) of
           Inl e \<Rightarrow> Inl e
         | Inr filterBy \<Rightarrow>
             Inr (JStr (concat (if length filterBy > 1 then [''(&''] @ filterBy @ ['')''] else filterBy)))))"


section \<open>Example inputs\<close>

text \<open>
  Concrete inputs for the instances below: the address 10.0.0.57 on a network
  that keys its rows by number, an IP record assigned to a zone, a store that
  holds one row for that address, and a stand-in for the validator that keeps
  the fields the schema names.
\<close>

definition ex_addr :: ipaddr where
  "ex_addr = \<lparr> toLong = 167772217, toString = ''10.0.0.57'' \<rparr>"

definition ex_parse :: "jsval \<Rightarrow> ipaddr option" where
  "ex_parse v = (if v = JNum 167772217 \<or> v = JStr ''10.0.0.57'' then Some ex_addr else None)"

definition ex_net :: network where
  "ex_net = \<lparr> uuid = ''1d0dd3de-1d8b'', nic_tag = ''external'', ip_use_strings = False \<rparr>"

definition ex_ip :: "obj \<Rightarrow> IP" where
  "ex_ip ps = \<lparr> network = ex_net, network_uuid = ''1d0dd3de-1d8b'', address = ex_addr,
     params = ps, etag = JStr ''0'', use_strings = JBool False \<rparr>"

definition ex_assigned :: obj where
  "ex_assigned = [''reserved'' \<mapsto> JBool False, ''belongs_to_type'' \<mapsto> JStr ''zone'',
     ''belongs_to_uuid'' \<mapsto> JStr ''a1b2'', ''owner_uuid'' \<mapsto> JStr ''c3d4'']"

definition ex_store :: "obj \<Rightarrow> moray" where
  "ex_store v = \<lparr> rows = (\<lambda>bk. None)((''napi_ips_1d0dd3de_1d8b'', ''167772217'') \<mapsto>
                    \<lparr> r_value = v(''ip'' \<mapsto> JNum 167772217), r_etag = ''0'' \<rparr>),
                  counter = 1 \<rparr>"

definition ex_validate :: "schema \<Rightarrow> (string \<times> jsval) list \<Rightarrow> error + (string \<times> jsval) list" where
  "ex_validate sch ps = Inr (filter (\<lambda>(k, v). k \<in> set (required sch) \<or> k \<in> set (optional sch)) ps)"

definition ex_unassign :: updateIP_opts where
  "ex_unassign = \<lparr> u_ip = RawVal (JStr ''10.0.0.57''), u_network = ex_net,
     u_network_uuid = ''1d0dd3de-1d8b'', u_params = [(''unassign'', JBool True)],
     u_oldIP = None, u_existingIP = ex_ip ex_assigned \<rparr>"

definition ex_get :: getIP_opts where
  "ex_get = \<lparr> g_ip = RawVal (JStr ''10.0.0.57''), g_network = ex_net,
     g_network_uuid = ''1d0dd3de-1d8b'', g_returnObject = True \<rparr>"

definition ex_empty :: moray where
  "ex_empty = \<lparr> rows = (\<lambda>bk. None), counter = 0 \<rparr>"

definition ex_create :: ip_params where
  "ex_create = \<lparr> p_network = ex_net, p_network_uuid = ''1d0dd3de-1d8b'',
     p_ip = RawVal (JStr ''10.0.0.57''), p_props = [''reserved'' \<mapsto> JBool False] \<rparr>"

definition ex_delete :: deleteIP_opts where
  "ex_delete = \<lparr> d_ip = RawVal (JStr ''10.0.0.57''), d_network = ex_net,
     d_existingIP = ex_ip ex_assigned \<rparr>"

definition ex_batch :: batchCreate_params where
  "ex_batch = \<lparr> bc_network_uuid = ''1d0dd3de-1d8b'', bc_batch = [ex_create] \<rparr>"

definition ex_nets :: "string \<Rightarrow> network option" where
  "ex_nets u =
     (if u = ''net-a'' then Some \<lparr> uuid = ''net-a'', nic_tag = ''external'', ip_use_strings = False \<rparr>
      else if u = ''net-b'' then Some \<lparr> uuid = ''net-b'', nic_tag = ''internal'', ip_use_strings = False \<rparr>
      else None)"


section \<open>Properties of the commit order\<close>

lemma indexOf_ge: "- 1 \<le> indexOf s sub"
  by (induction s) (auto simp: Let_def)

lemma indexOf_sublist: "indexOf s sub = - 1 \<longleftrightarrow> \<not> sublist sub s"
proof (induction s)
  case Nil
  then show ?case by auto
next
  case (Cons c s)
  have "indexOf s sub + 1 \<noteq> - 1"
    using indexOf_ge [of s sub] by linarith
  with Cons show ?case
    by (auto simp: Let_def sublist_Cons_right)
qed

lemma mset_insert_by: "mset (insert_by cmp x ys) = add_mset x (mset ys)"
  by (induction ys) auto

lemma mset_array_sort: "mset (array_sort cmp xs) = mset xs"
  by (induction xs) (auto simp: mset_insert_by)

lemma set_insert_by: "set (insert_by cmp x ys) = insert x (set ys)"
  by (induction ys) auto

lemma sorted_insert_by:
  assumes tr: "\<And>a b c. cmp a b \<le> 0 \<Longrightarrow> cmp b c \<le> 0 \<Longrightarrow> cmp a c \<le> 0"
    and tot: "\<And>a b. cmp a b \<le> 0 \<or> cmp b a \<le> 0"
  shows "sorted_wrt (\<lambda>a b. cmp a b \<le> 0) ys \<Longrightarrow> sorted_wrt (\<lambda>a b. cmp a b \<le> 0) (insert_by cmp x ys)"
proof (induction ys)
  case Nil
  then show ?case by simp
next
  case (Cons y ys)
  show ?case
  proof (cases "cmp x y \<le> 0")
    case True
    with Cons.prems show ?thesis
      by (auto intro: tr)
  next
    case False
    then have "cmp y x \<le> 0" using tot [of x y] by simp
    with False Cons show ?thesis
      by (auto simp: set_insert_by)
  qed
qed

lemma sorted_array_sort:
  assumes tr: "\<And>a b c. cmp a b \<le> 0 \<Longrightarrow> cmp b c \<le> 0 \<Longrightarrow> cmp a c \<le> 0"
    and tot: "\<And>a b. cmp a b \<le> 0 \<or> cmp b a \<le> 0"
  shows "sorted_wrt (\<lambda>a b. cmp a b \<le> 0) (array_sort cmp xs)"
  by (induction xs) (auto intro: sorted_insert_by [OF tr tot])

lemma compareRequests_le:
  "compareRequests a b \<le> 0 \<longleftrightarrow> bucket b < bucket a \<or> (bucket a = bucket b \<and> key a \<le> key b)"
  by (auto simp: compareRequests_def)

lemma compareRequests_trans:
  "compareRequests a b \<le> 0 \<Longrightarrow> compareRequests b c \<le> 0 \<Longrightarrow> compareRequests a c \<le> 0"
  unfolding compareRequests_le by auto

lemma compareRequests_total: "compareRequests a b \<le> 0 \<or> compareRequests b a \<le> 0"
  unfolding compareRequests_le by auto

lemma commitBatch_batch_example:
  "map (\<lambda>r. (bucket r, key r))
     (commitBatch_batch
        (map (\<lambda>(b, k). \<lparr> bucket = b, key = k, operation = ''put'', val = Map.empty, options = None \<rparr>)
           [(''napi_ips_a'', ''2''), (''portolan_b'', ''z''), (''napi_nics'', ''5''),
            (''portolan_a'', ''y''), (''napi_ips_a'', ''10'')]))
   = [(''napi_nics'', ''5''), (''napi_ips_a'', ''10''), (''napi_ips_a'', ''2''),
      (''portolan_b'', ''z''), (''portolan_a'', ''y'')]"
  by (simp add: commitBatch_batch_def compareRequests_def less_char_def)

text \<open>
  C1. The list committed by \<^verbatim>\<open>commitBatch\<close> is a list \<open>topo\<close> followed by the
  requests of the batch whose bucket name contains \<^verbatim>\<open>portolan\<close>, in their original
  relative order; \<open>topo\<close> holds exactly the requests whose bucket name does not contain
  \<^verbatim>\<open>portolan\<close>, ordered by bucket name descending and, for equal buckets, by key
  ascending.
\<close>

theorem commitBatch_order:
  "\<exists>topo. commitBatch_batch batch = topo @ filter (\<lambda>r. sublist ''portolan'' (bucket r)) batch
     \<and> mset topo = mset (filter (\<lambda>r. \<not> sublist ''portolan'' (bucket r)) batch)
     \<and> sorted_wrt (\<lambda>a b. bucket b < bucket a \<or> (bucket a = bucket b \<and> key a \<le> key b)) topo"
proof -
  let ?topo = "array_sort compareRequests (filter (\<lambda>r. \<not> sublist ''portolan'' (bucket r)) batch)"
  have "commitBatch_batch batch = ?topo @ filter (\<lambda>r. sublist ''portolan'' (bucket r)) batch"
    by (simp add: commitBatch_batch_def indexOf_sublist)
  moreover have "mset ?topo = mset (filter (\<lambda>r. \<not> sublist ''portolan'' (bucket r)) batch)"
    by (rule mset_array_sort)
  moreover have "sorted_wrt (\<lambda>a b. compareRequests a b \<le> 0) ?topo"
    by (rule sorted_array_sort [OF compareRequests_trans compareRequests_total])
  then have "sorted_wrt (\<lambda>a b. bucket b < bucket a \<or> (bucket a = bucket b \<and> key a \<le> key b)) ?topo"
    by (simp add: compareRequests_le)
  ultimately show ?thesis by blast
qed


section \<open>Properties of the IP model\<close>

lemma ex_key: "decimal 167772217 = ''167772217''" by (simp add: decimal.simps digit_char_def)

lemma ex_bucket: "bucketName ''1d0dd3de-1d8b'' = ''napi_ips_1d0dd3de_1d8b''"
  by (simp add: bucketName_def)

lemma foldl_copy_props:
  "foldl (\<lambda>raw param. if hasOwnProperty ps param then raw(param \<mapsto> getp ps param) else raw) raw0 names k
     = (if k \<in> set names \<and> ps k \<noteq> None then ps k else raw0 k)"
  by (induction names arbitrary: raw0) (auto simp: hasOwnProperty_def getp_def)

lemma ipRaw_optional:
  "k \<in> set OPTIONAL_PARAMS \<Longrightarrow> ipRaw self k = params self k"
  unfolding ipRaw_def Let_def foldl_copy_props
  by (auto simp: OPTIONAL_PARAMS_def)

lemma ipRaw_reserved:
  "ipRaw self ''reserved'' = Some (JBool (truthy (getp (params self) ''reserved'')))"
  unfolding ipRaw_def Let_def foldl_copy_props
  by (simp add: OPTIONAL_PARAMS_def)

lemma unassignIP_val:
  "val (unassignIP self) ''belongs_to_type'' = None \<and>
   val (unassignIP self) ''belongs_to_uuid'' = None \<and>
   val (unassignIP self) ''owner_uuid'' =
     (if truthy (getp (params self) ''reserved'') then params self ''owner_uuid'' else None) \<and>
   val (unassignIP self) ''reserved'' = Some (JBool (truthy (getp (params self) ''reserved'')))"
  by (simp add: unassignIP_def ipBatch_def Let_def delete_prop_def ipRaw_reserved ipRaw_optional OPTIONAL_PARAMS_def)

text \<open>
  C2. The serialized form of an IP record has \<^verbatim>\<open>free\<close> true exactly when none of
  \<^verbatim>\<open>belongs_to_type\<close>, \<^verbatim>\<open>belongs_to_uuid\<close>, \<^verbatim>\<open>owner_uuid\<close> is an own property of its
  parameters and \<^verbatim>\<open>reserved\<close> is not set (is falsy); and it always has the
  properties \<^verbatim>\<open>ip\<close>, \<^verbatim>\<open>network_uuid\<close>, \<^verbatim>\<open>reserved\<close> and \<^verbatim>\<open>free\<close>.
\<close>

theorem ipSerialize_free:
  "ipSerialize self ''free'' =
     Some (JBool (\<not> hasOwnProperty (params self) ''belongs_to_type'' \<and>
                  \<not> hasOwnProperty (params self) ''belongs_to_uuid'' \<and>
                  \<not> hasOwnProperty (params self) ''owner_uuid'' \<and>
                  \<not> truthy (getp (params self) ''reserved'')))
   \<and> ipSerialize self ''ip'' = Some (JStr (toString (address self)))
   \<and> ipSerialize self ''network_uuid'' = Some (JStr (uuid (network self)))
   \<and> ipSerialize self ''reserved'' = Some (JBool (truthy (getp (params self) ''reserved'')))"
  by (simp add: ipSerialize_def OPTIONAL_PARAMS_def Let_def)

text \<open>
  C3. \<^verbatim>\<open>provisionable()\<close> is true exactly when the record has no (truthy)
  \<^verbatim>\<open>belongs_to_uuid\<close>, or no (truthy) \<^verbatim>\<open>belongs_to_type\<close>, or its
  \<^verbatim>\<open>belongs_to_type\<close> is \<^verbatim>\<open>other\<close> and its \<^verbatim>\<open>belongs_to_uuid\<close> is the UFDS admin
  UUID.
\<close>

theorem ipProvisionable_iff:
  "ipProvisionable UFDS_ADMIN_UUID self \<longleftrightarrow>
     \<not> truthy (getp (params self) ''belongs_to_uuid'') \<or>
     \<not> truthy (getp (params self) ''belongs_to_type'') \<or>
     (getp (params self) ''belongs_to_type'' = JStr ''other'' \<and>
      getp (params self) ''belongs_to_uuid'' = JStr UFDS_ADMIN_UUID)"
  by (auto simp: ipProvisionable_def)

text \<open>
  On a record whose \<^verbatim>\<open>belongs_to_uuid\<close> and \<^verbatim>\<open>belongs_to_type\<close> hold a truthy value
  whenever they are present (validated records hold a UUID and a type name there),
  having no truthy value is the same as not having the property.
\<close>

lemma ipProvisionable_absent:
  assumes "\<And>v. params self ''belongs_to_uuid'' = Some v \<Longrightarrow> truthy v"
    and "\<And>v. params self ''belongs_to_type'' = Some v \<Longrightarrow> truthy v"
  shows "ipProvisionable UFDS_ADMIN_UUID self \<longleftrightarrow>
     \<not> hasOwnProperty (params self) ''belongs_to_uuid'' \<or>
     \<not> hasOwnProperty (params self) ''belongs_to_type'' \<or>
     (params self ''belongs_to_type'' = Some (JStr ''other'') \<and>
      params self ''belongs_to_uuid'' = Some (JStr UFDS_ADMIN_UUID))"
  using assms
  by (auto simp: ipProvisionable_def hasOwnProperty_def getp_def split: option.splits)

theorem ipProvisionable_iff_witness:
  "\<not> ipProvisionable ''admin'' (ex_ip ex_assigned) \<and>
   ipProvisionable ''admin'' (ex_ip [''belongs_to_type'' \<mapsto> JStr ''other'', ''belongs_to_uuid'' \<mapsto> JStr ''admin''])
   \<and> ipProvisionable ''admin'' (ex_ip [''reserved'' \<mapsto> JBool True])"
  by (simp add: ipProvisionable_iff ex_ip_def ex_assigned_def getp_def)


section \<open>Properties of the IP operations\<close>

lemma updateObj_remove:
  assumes "rows st (b_name bkt, k) = Some r"
  shows "updateObj st \<lparr> uo_bucket = bkt, uo_key = k, uo_remove = True, uo_replace = False, uo_val = [(f1, x1), (f2, x2)] \<rparr>
     = Inr ((r_value r)(f1 := None, f2 := None),
            st\<lparr> rows := (rows st)((b_name bkt, k) \<mapsto> \<lparr> r_value = (r_value r)(f1 := None, f2 := None), r_etag = decimal (counter st) \<rparr>),
                counter := Suc (counter st) \<rparr>)"
  using assms by (simp add: updateObj_def getObj_def getObject_def putObject_def delete_prop_def Let_def)

lemma updateIP_unassign_row:
  assumes "toIPAddr parse (u_ip opts) = Some a"
    and "validate (updateIP_schema opts) (u_params opts) = Inr vp"
    and "truthy (getl vp ''unassign'')"
    and "rows st (bucketName (u_network_uuid opts), getIPKey (JBool (ip_use_strings (u_network opts))) a) = Some r"
  shows "rows (snd (updateIP validate parse st opts))
           (bucketName (u_network_uuid opts), getIPKey (JBool (ip_use_strings (u_network opts))) a)
         = Some \<lparr> r_value = (r_value r)(''belongs_to_type'' := None, ''belongs_to_uuid'' := None),
                  r_etag = decimal (counter st) \<rparr>"
proof -
  have "rows st (b_name (getBucketObj (u_network_uuid opts)), getIPKey (JBool (ip_use_strings (u_network opts))) a) = Some r"
    using assms(4) by (simp add: getBucketObj_def)
  from updateObj_remove [OF this] assms(1-3) show ?thesis
    by (simp add: updateIP_def Let_def getBucketObj_def)
qed

lemma ex_unassign_facts:
  "toIPAddr ex_parse (u_ip ex_unassign) = Some ex_addr"
  "ex_validate (updateIP_schema ex_unassign) (u_params ex_unassign) = Inr [(''unassign'', JBool True)]"
  "truthy (getl [(''unassign'', JBool True)] ''unassign'')"
  "getIPKey (JBool (ip_use_strings (u_network ex_unassign))) ex_addr = ''167772217''"
  "bucketName (u_network_uuid ex_unassign) = ''napi_ips_1d0dd3de_1d8b''"
  "rows (ex_store v) (''napi_ips_1d0dd3de_1d8b'', ''167772217'')
     = Some \<lparr> r_value = v(''ip'' \<mapsto> JNum 167772217), r_etag = ''0'' \<rparr>"
  by (simp_all add: ex_unassign_def ex_parse_def ex_validate_def updateIP_schema_def getl_def getp_def
       ex_net_def getIPKey_def ex_addr_def ex_key ex_bucket ex_store_def)

text \<open>
  C4, as the claim states it, fails on the update path: \<^verbatim>\<open>updateIP\<close> with
  \<^verbatim>\<open>unassign\<close> set, on a row that is assigned and not reserved, leaves
  \<^verbatim>\<open>owner_uuid\<close> in the stored row.
\<close>

theorem unassign_counterexample:
  "getp ex_assigned ''reserved'' = JBool False \<and>
   map_option (\<lambda>r. r_value r ''owner_uuid'')
     (rows (snd (updateIP ex_validate ex_parse (ex_store ex_assigned) ex_unassign))
        (''napi_ips_1d0dd3de_1d8b'', ''167772217'')) = Some (Some (JStr ''c3d4''))"
proof -
  have "rows (ex_store ex_assigned)
          (bucketName (u_network_uuid ex_unassign),
           getIPKey (JBool (ip_use_strings (u_network ex_unassign))) ex_addr)
        = Some \<lparr> r_value = ex_assigned(''ip'' \<mapsto> JNum 167772217), r_etag = ''0'' \<rparr>"
    by (simp only: ex_unassign_facts)
  from updateIP_unassign_row [where validate = ex_validate, OF ex_unassign_facts(1-3) this]
  show ?thesis
    by (simp add: ex_unassign_facts(4,5) ex_assigned_def getp_def)
qed

text \<open>
  C4, amended. Unassigning clears \<^verbatim>\<open>belongs_to_type\<close> and \<^verbatim>\<open>belongs_to_uuid\<close>.
  The batch form (\<^verbatim>\<open>unassignBatch\<close>) also clears \<^verbatim>\<open>owner_uuid\<close> when
  \<^verbatim>\<open>reserved\<close> is false, and keeps \<^verbatim>\<open>owner_uuid\<close> with \<^verbatim>\<open>reserved\<close> true
  otherwise. The update form (\<^verbatim>\<open>updateIP\<close> with \<^verbatim>\<open>unassign\<close> set) removes
  \<^verbatim>\<open>belongs_to_type\<close> and \<^verbatim>\<open>belongs_to_uuid\<close> from the stored row and leaves its
  other properties, \<^verbatim>\<open>owner_uuid\<close> and \<^verbatim>\<open>reserved\<close> included, as they are.
\<close>

theorem unassign_clears_belongs_to:
  "val (unassignIP self) ''belongs_to_type'' = None
   \<and> val (unassignIP self) ''belongs_to_uuid'' = None
   \<and> (\<not> truthy (getp (params self) ''reserved'') \<longrightarrow> val (unassignIP self) ''owner_uuid'' = None)
   \<and> (truthy (getp (params self) ''reserved'') \<longrightarrow>
        val (unassignIP self) ''owner_uuid'' = params self ''owner_uuid'' \<and>
        val (unassignIP self) ''reserved'' = Some (JBool True))
   \<and> (toIPAddr parse (u_ip opts) = Some a \<longrightarrow>
      validate (updateIP_schema opts) (u_params opts) = Inr vp \<longrightarrow>
      truthy (getl vp ''unassign'') \<longrightarrow>
      rows st (bucketName (u_network_uuid opts), getIPKey (JBool (ip_use_strings (u_network opts))) a) = Some r \<longrightarrow>
        rows (snd (updateIP validate parse st opts))
           (bucketName (u_network_uuid opts), getIPKey (JBool (ip_use_strings (u_network opts))) a)
         = Some \<lparr> r_value = (r_value r)(''belongs_to_type'' := None, ''belongs_to_uuid'' := None),
                  r_etag = decimal (counter st) \<rparr>)"
  using unassignIP_val [of self] updateIP_unassign_row [of parse opts a validate vp st r]
  by simp

theorem unassign_clears_belongs_to_witness:
  "val (unassignIP (ex_ip ex_assigned)) ''belongs_to_type'' = None
   \<and> val (unassignIP (ex_ip ex_assigned)) ''belongs_to_uuid'' = None
   \<and> val (unassignIP (ex_ip ex_assigned)) ''owner_uuid'' = None
   \<and> val (unassignIP (ex_ip (ex_assigned(''reserved'' \<mapsto> JBool True)))) ''owner_uuid'' = Some (JStr ''c3d4'')
   \<and> val (unassignIP (ex_ip (ex_assigned(''reserved'' \<mapsto> JBool True)))) ''reserved'' = Some (JBool True)
   \<and> rows (snd (updateIP ex_validate ex_parse (ex_store (ex_assigned(''reserved'' \<mapsto> JBool True))) ex_unassign))
           (''napi_ips_1d0dd3de_1d8b'', ''167772217'')
         = Some \<lparr> r_value = [''reserved'' \<mapsto> JBool True, ''owner_uuid'' \<mapsto> JStr ''c3d4'',
                              ''ip'' \<mapsto> JNum 167772217],
                  r_etag = ''1'' \<rparr>"
proof -
  let ?A = "ex_ip ex_assigned"
  let ?R = "ex_ip (ex_assigned(''reserved'' \<mapsto> JBool True))"
  let ?st = "ex_store (ex_assigned(''reserved'' \<mapsto> JBool True))"
  let ?r = "\<lparr> r_value = ex_assigned(''reserved'' \<mapsto> JBool True, ''ip'' \<mapsto> JNum 167772217), r_etag = ''0'' \<rparr>"
  have a: "\<not> truthy (getp (params ?A) ''reserved'')"
    by (simp add: ex_ip_def ex_assigned_def getp_def)
  have b: "truthy (getp (params ?R) ''reserved'')" "params ?R ''owner_uuid'' = Some (JStr ''c3d4'')"
    by (simp_all add: ex_ip_def ex_assigned_def getp_def)
  have row: "rows ?st (bucketName (u_network_uuid ex_unassign),
                getIPKey (JBool (ip_use_strings (u_network ex_unassign))) ex_addr) = Some ?r"
    by (simp only: ex_unassign_facts)
  have d: "decimal (counter ?st) = ''1''"
    by (simp add: ex_store_def decimal.simps digit_char_def)
  have m: "(r_value ?r)(''belongs_to_type'' := None, ''belongs_to_uuid'' := None)
           = [''reserved'' \<mapsto> JBool True, ''owner_uuid'' \<mapsto> JStr ''c3d4'', ''ip'' \<mapsto> JNum 167772217]"
    by (rule ext) (simp add: ex_assigned_def)
  from unassign_clears_belongs_to [where self = ?A] a
  have 1: "val (unassignIP ?A) ''belongs_to_type'' = None \<and> val (unassignIP ?A) ''belongs_to_uuid'' = None
           \<and> val (unassignIP ?A) ''owner_uuid'' = None"
    by blast
  from unassign_clears_belongs_to [where self = ?R] b
  have 2: "val (unassignIP ?R) ''owner_uuid'' = Some (JStr ''c3d4'') \<and>
           val (unassignIP ?R) ''reserved'' = Some (JBool True)"
    by simp
  from unassign_clears_belongs_to [where validate = ex_validate and parse = ex_parse and opts = ex_unassign
      and a = ex_addr and vp = "[(''unassign'', JBool True)]" and st = ?st and r = ?r]
    ex_unassign_facts(1-3) row
  have "rows (snd (updateIP ex_validate ex_parse ?st ex_unassign))
          (bucketName (u_network_uuid ex_unassign),
           getIPKey (JBool (ip_use_strings (u_network ex_unassign))) ex_addr)
        = Some \<lparr> r_value = (r_value ?r)(''belongs_to_type'' := None, ''belongs_to_uuid'' := None),
                 r_etag = decimal (counter ?st) \<rparr>"
    by blast
  then have 3: "rows (snd (updateIP ex_validate ex_parse ?st ex_unassign))
          (''napi_ips_1d0dd3de_1d8b'', ''167772217'')
        = Some \<lparr> r_value = [''reserved'' \<mapsto> JBool True, ''owner_uuid'' \<mapsto> JStr ''c3d4'', ''ip'' \<mapsto> JNum 167772217],
                 r_etag = ''1'' \<rparr>"
    unfolding ex_unassign_facts(4,5) d m .
  from 1 2 3 show ?thesis by blast
qed

lemma getObj_absent:
  "rows st (b_name bkt, k) = None \<Longrightarrow>
     getObj st bkt k = Inl (ResourceNotFoundError (b_desc bkt @ '' not found''))"
  by (simp add: getObj_def getObject_def)

lemma getIP_absent:
  assumes "toIPAddr parse (g_ip opts) = Some a"
    and "rows st (bucketName (g_network_uuid opts), getIPKey (JBool (ip_use_strings (g_network opts))) a) = None"
  shows "getIP parse st opts =
     (if g_returnObject opts
      then Inr \<lparr> network = g_network opts, network_uuid = g_network_uuid opts, address = a,
                 params = [''etag'' \<mapsto> JNull, ''free'' \<mapsto> JBool True, ''reserved'' \<mapsto> JBool False],
                 etag = JNull, use_strings = JBool (ip_use_strings (g_network opts)) \<rparr>
      else Inl (ResourceNotFoundError ''IP not found''))"
proof -
  have "getObj st (getBucketObj (g_network_uuid opts)) (getIPKey (JBool (ip_use_strings (g_network opts))) a)
        = Inl (ResourceNotFoundError (b_desc (getBucketObj (g_network_uuid opts)) @ '' not found''))"
    by (rule getObj_absent) (simp add: getBucketObj_def assms(2))
  then show ?thesis
    using assms(1)
    by (simp add: getIP_def Let_def new_IP_def getp_def hasOwnProperty_def)
qed

lemma createIP_put:
  assumes "validate ps = Inr v" and "new_IP parse v = Inr ip"
  shows "createIP validate parse st ps =
     (if rows st (bucketName (uuid (p_network v)), ipKey ip) = None
      then (Inr (ip\<lparr> etag := JStr (decimal (counter st)) \<rparr>),
            st\<lparr> rows := (rows st)((bucketName (uuid (p_network v)), ipKey ip) \<mapsto>
                           \<lparr> r_value = ipRaw ip, r_etag = decimal (counter st) \<rparr>),
                counter := Suc (counter st) \<rparr>)
      else (Inl EtagConflictError, st))"
  using assms by (simp add: createIP_def Let_def putObject_def getBucketObj_def)

text \<open>
  C5. A get of a valid address whose row is absent returns, with
  \<^verbatim>\<open>returnObject\<close> set, a synthetic free IP record with etag null and
  \<^verbatim>\<open>reserved\<close> false, and fails with \<^verbatim>\<open>IP not found\<close> without it. \<^verbatim>\<open>createIP\<close>
  writes the new row with the expected etag null: the write succeeds when the row
  is absent and fails with an etag conflict, the store unchanged, when the row
  exists already.
\<close>

theorem getIP_synthetic_createIP_conflict:
  "(toIPAddr parse (g_ip opts) = Some a \<longrightarrow>
    rows st (bucketName (g_network_uuid opts), getIPKey (JBool (ip_use_strings (g_network opts))) a) = None \<longrightarrow>
      (if g_returnObject opts
       then (\<exists>ip. getIP parse st opts = Inr ip \<and> etag ip = JNull \<and>
                  getp (params ip) ''reserved'' = JBool False \<and> address ip = a \<and>
                  ipSerialize ip ''free'' = Some (JBool True))
       else getIP parse st opts = Inl (ResourceNotFoundError ''IP not found'')))
   \<and> (validate ps = Inr v \<longrightarrow> new_IP parse v = Inr ip \<longrightarrow>
        (if rows st' (bucketName (uuid (p_network v)), ipKey ip) = None
         then createIP validate parse st' ps =
                (Inr (ip\<lparr> etag := JStr (decimal (counter st')) \<rparr>),
                 st'\<lparr> rows := (rows st')((bucketName (uuid (p_network v)), ipKey ip) \<mapsto>
                                 \<lparr> r_value = ipRaw ip, r_etag = decimal (counter st') \<rparr>),
                      counter := Suc (counter st') \<rparr>)
         else createIP validate parse st' ps = (Inl EtagConflictError, st')))"
proof (intro conjI impI)
  assume a: "toIPAddr parse (g_ip opts) = Some a"
    and r: "rows st (bucketName (g_network_uuid opts), getIPKey (JBool (ip_use_strings (g_network opts))) a) = None"
  show "if g_returnObject opts
       then (\<exists>ip. getIP parse st opts = Inr ip \<and> etag ip = JNull \<and>
                  getp (params ip) ''reserved'' = JBool False \<and> address ip = a \<and>
                  ipSerialize ip ''free'' = Some (JBool True))
       else getIP parse st opts = Inl (ResourceNotFoundError ''IP not found'')"
    unfolding getIP_absent [OF a r]
    by (simp add: getp_def ipSerialize_def Let_def OPTIONAL_PARAMS_def hasOwnProperty_def)
next
  assume "validate ps = Inr v" and "new_IP parse v = Inr ip"
  then show "if rows st' (bucketName (uuid (p_network v)), ipKey ip) = None
         then createIP validate parse st' ps =
                (Inr (ip\<lparr> etag := JStr (decimal (counter st')) \<rparr>),
                 st'\<lparr> rows := (rows st')((bucketName (uuid (p_network v)), ipKey ip) \<mapsto>
                                 \<lparr> r_value = ipRaw ip, r_etag = decimal (counter st') \<rparr>),
                      counter := Suc (counter st') \<rparr>)
         else createIP validate parse st' ps = (Inl EtagConflictError, st')"
    by (simp add: createIP_put)
qed

lemma ex_create_IP:
  "new_IP ex_parse ex_create = Inr (ex_ip [''reserved'' \<mapsto> JBool False]\<lparr> etag := JNull \<rparr>)"
  by (simp add: new_IP_def ex_create_def ex_parse_def ex_ip_def ex_net_def getp_def hasOwnProperty_def)

lemma ex_ipKey: "ipKey (ex_ip ps\<lparr> etag := e \<rparr>) = ''167772217''"
  by (simp add: ipKey_def ex_ip_def getIPKey_def ex_addr_def ex_key)

theorem getIP_synthetic_createIP_conflict_witness:
  "(\<exists>ip. getIP ex_parse ex_empty ex_get = Inr ip \<and> etag ip = JNull \<and>
         getp (params ip) ''reserved'' = JBool False \<and> address ip = ex_addr \<and>
         ipSerialize ip ''free'' = Some (JBool True))
   \<and> getIP ex_parse ex_empty (ex_get\<lparr> g_returnObject := False \<rparr>) = Inl (ResourceNotFoundError ''IP not found'')
   \<and> createIP Inr ex_parse (ex_store ex_assigned) ex_create = (Inl EtagConflictError, ex_store ex_assigned)
   \<and> fst (createIP Inr ex_parse ex_empty ex_create)
        = Inr (ex_ip [''reserved'' \<mapsto> JBool False]\<lparr> etag := JStr ''0'' \<rparr>)"
proof -
  have p: "toIPAddr ex_parse (g_ip ex_get) = Some ex_addr"
    "toIPAddr ex_parse (g_ip (ex_get\<lparr> g_returnObject := False \<rparr>)) = Some ex_addr"
    by (simp_all add: ex_get_def ex_parse_def)
  have r: "rows ex_empty bk = None" for bk
    by (simp add: ex_empty_def)
  have n: "p_network ex_create = ex_net" "uuid ex_net = ''1d0dd3de-1d8b''"
    by (simp_all add: ex_create_def ex_net_def)
  have d: "decimal (counter ex_empty) = ''0''"
    by (simp add: ex_empty_def decimal.simps digit_char_def)
  from getIP_synthetic_createIP_conflict [where parse = ex_parse and opts = ex_get and a = ex_addr and st = ex_empty] p(1) r
  have 1: "\<exists>ip. getIP ex_parse ex_empty ex_get = Inr ip \<and> etag ip = JNull \<and>
         getp (params ip) ''reserved'' = JBool False \<and> address ip = ex_addr \<and>
         ipSerialize ip ''free'' = Some (JBool True)"
    by (simp add: ex_get_def)
  from getIP_synthetic_createIP_conflict [where parse = ex_parse and opts = "ex_get\<lparr> g_returnObject := False \<rparr>"
      and a = ex_addr and st = ex_empty] p(2) r
  have 2: "getIP ex_parse ex_empty (ex_get\<lparr> g_returnObject := False \<rparr>) = Inl (ResourceNotFoundError ''IP not found'')"
    by simp
  from getIP_synthetic_createIP_conflict [where validate = Inr and ps = ex_create and v = ex_create
      and parse = ex_parse and st' = "ex_store ex_assigned", OF] ex_create_IP
  have 3: "createIP Inr ex_parse (ex_store ex_assigned) ex_create = (Inl EtagConflictError, ex_store ex_assigned)"
    by (simp add: n ex_bucket ex_ipKey ex_unassign_facts(6))
  from getIP_synthetic_createIP_conflict [where validate = Inr and ps = ex_create and v = ex_create
      and parse = ex_parse and st' = ex_empty] ex_create_IP
  have 4: "fst (createIP Inr ex_parse ex_empty ex_create)
        = Inr (ex_ip [''reserved'' \<mapsto> JBool False]\<lparr> etag := JStr ''0'' \<rparr>)"
    by (simp add: r d)
  from 1 2 3 4 show ?thesis by blast
qed

lemma deleteIP_val_eq:
  "deleteIP_val us a =
     (\<lambda>k. if k = ''reserved'' then Some (JBool False)
           else if us \<and> k = ''ipaddr'' then Some (JStr (toString a))
           else if \<not> us \<and> k = ''ip'' then Some (JNum (int (toLong a)))
           else None)"
  by (rule ext) (simp add: deleteIP_val_def Let_def)

lemma deleteIP_put:
  assumes "toIPAddr parse (d_ip opts) = Some a"
  shows "snd (deleteIP parse st opts) =
     (if etag_ok (rows st (bucketName (uuid (d_network opts)), getIPKey (JBool (ip_use_strings (d_network opts))) a))
           (Some (etag (d_existingIP opts)))
      then st\<lparr> rows := (rows st)((bucketName (uuid (d_network opts)), getIPKey (JBool (ip_use_strings (d_network opts))) a) \<mapsto>
                           \<lparr> r_value = deleteIP_val (ip_use_strings (d_network opts)) a, r_etag = decimal (counter st) \<rparr>),
                counter := Suc (counter st) \<rparr>
      else st)
   \<and> (\<not> etag_ok (rows st (bucketName (uuid (d_network opts)), getIPKey (JBool (ip_use_strings (d_network opts))) a))
           (Some (etag (d_existingIP opts))) \<longrightarrow> fst (deleteIP parse st opts) = Inl EtagConflictError)"
  using assms by (simp add: deleteIP_def Let_def putObject_def)

lemma deleteIP_keeps_rows:
  "rows st bk \<noteq> None \<Longrightarrow> rows (snd (deleteIP parse st opts)) bk \<noteq> None"
proof (cases "toIPAddr parse (d_ip opts)")
  case None
  assume "rows st bk \<noteq> None"
  with None show ?thesis by (simp add: deleteIP_def)
next
  case (Some a)
  assume "rows st bk \<noteq> None"
  then show ?thesis
    using deleteIP_put [OF Some, of st] by simp
qed

text \<open>
  C6. \<^verbatim>\<open>deleteIP\<close> of a valid address writes, under the etag of the existing
  record, a row whose value has \<^verbatim>\<open>reserved\<close> false, the address (\<^verbatim>\<open>ip\<close> or
  \<^verbatim>\<open>ipaddr\<close>) and no other property; when the etag does not match, it fails
  with an etag conflict and the store is unchanged. No row of the store is ever
  removed.
\<close>

theorem deleteIP_overwrites_row:
  "(toIPAddr parse (d_ip opts) = Some a \<longrightarrow>
     (if etag_ok (rows st (bucketName (uuid (d_network opts)), getIPKey (JBool (ip_use_strings (d_network opts))) a))
           (Some (etag (d_existingIP opts)))
      then rows (snd (deleteIP parse st opts))
             (bucketName (uuid (d_network opts)), getIPKey (JBool (ip_use_strings (d_network opts))) a)
           = Some \<lparr> r_value = deleteIP_val (ip_use_strings (d_network opts)) a, r_etag = decimal (counter st) \<rparr>
      else deleteIP parse st opts = (Inl EtagConflictError, st)))
   \<and> deleteIP_val us b =
       (\<lambda>k. if k = ''reserved'' then Some (JBool False)
             else if us \<and> k = ''ipaddr'' then Some (JStr (toString b))
             else if \<not> us \<and> k = ''ip'' then Some (JNum (int (toLong b)))
             else None)
   \<and> (rows st bk \<noteq> None \<longrightarrow> rows (snd (deleteIP parse st opts)) bk \<noteq> None)"
proof (intro conjI impI)
  assume a: "toIPAddr parse (d_ip opts) = Some a"
  show "if etag_ok (rows st (bucketName (uuid (d_network opts)), getIPKey (JBool (ip_use_strings (d_network opts))) a))
           (Some (etag (d_existingIP opts)))
      then rows (snd (deleteIP parse st opts))
             (bucketName (uuid (d_network opts)), getIPKey (JBool (ip_use_strings (d_network opts))) a)
           = Some \<lparr> r_value = deleteIP_val (ip_use_strings (d_network opts)) a, r_etag = decimal (counter st) \<rparr>
      else deleteIP parse st opts = (Inl EtagConflictError, st)"
    using deleteIP_put [OF a, of st] by (auto simp: prod_eq_iff)
next
  show "deleteIP_val us b =
       (\<lambda>k. if k = ''reserved'' then Some (JBool False)
             else if us \<and> k = ''ipaddr'' then Some (JStr (toString b))
             else if \<not> us \<and> k = ''ip'' then Some (JNum (int (toLong b)))
             else None)"
    by (rule deleteIP_val_eq)
next
  assume "rows st bk \<noteq> None"
  then show "rows (snd (deleteIP parse st opts)) bk \<noteq> None"
    by (rule deleteIP_keeps_rows)
qed

theorem deleteIP_overwrites_row_witness:
  "rows (snd (deleteIP ex_parse (ex_store ex_assigned) ex_delete)) (''napi_ips_1d0dd3de_1d8b'', ''167772217'')
     = Some \<lparr> r_value = [''reserved'' \<mapsto> JBool False, ''ip'' \<mapsto> JNum 167772217], r_etag = ''1'' \<rparr>
   \<and> deleteIP ex_parse (ex_store ex_assigned) (ex_delete\<lparr> d_existingIP := ex_ip ex_assigned\<lparr> etag := JStr ''7'' \<rparr> \<rparr>)
       = (Inl EtagConflictError, ex_store ex_assigned)"
proof -
  let ?stale = "ex_delete\<lparr> d_existingIP := ex_ip ex_assigned\<lparr> etag := JStr ''7'' \<rparr> \<rparr>"
  have p: "toIPAddr ex_parse (d_ip ex_delete) = Some ex_addr"
    "toIPAddr ex_parse (d_ip ?stale) = Some ex_addr"
    by (simp_all add: ex_delete_def ex_parse_def)
  have k: "bucketName (uuid (d_network ex_delete)) = ''napi_ips_1d0dd3de_1d8b''"
    "getIPKey (JBool (ip_use_strings (d_network ex_delete))) ex_addr = ''167772217''"
    "bucketName (uuid (d_network ?stale)) = ''napi_ips_1d0dd3de_1d8b''"
    "getIPKey (JBool (ip_use_strings (d_network ?stale))) ex_addr = ''167772217''"
    by (simp_all add: ex_delete_def ex_net_def ex_bucket getIPKey_def ex_addr_def ex_key)
  have d: "decimal (counter (ex_store ex_assigned)) = ''1''"
    by (simp add: ex_store_def decimal.simps digit_char_def)
  have v: "deleteIP_val (ip_use_strings (d_network ex_delete)) ex_addr
           = [''reserved'' \<mapsto> JBool False, ''ip'' \<mapsto> JNum 167772217]"
    by (simp add: deleteIP_val_def ex_delete_def ex_net_def ex_addr_def)
  have c: "etag_ok (rows (ex_store ex_assigned) (''napi_ips_1d0dd3de_1d8b'', ''167772217''))
             (Some (etag (d_existingIP ex_delete))) = True"
    "etag_ok (rows (ex_store ex_assigned) (''napi_ips_1d0dd3de_1d8b'', ''167772217''))
             (Some (etag (d_existingIP ?stale))) = False"
    by (simp_all add: ex_unassign_facts(6) ex_delete_def ex_ip_def)
  note T = deleteIP_overwrites_row [where parse = ex_parse and a = ex_addr and st = "ex_store ex_assigned",
      THEN conjunct1, THEN mp]
  from T [OF p(1)] have 1:
    "rows (snd (deleteIP ex_parse (ex_store ex_assigned) ex_delete)) (''napi_ips_1d0dd3de_1d8b'', ''167772217'')
     = Some \<lparr> r_value = [''reserved'' \<mapsto> JBool False, ''ip'' \<mapsto> JNum 167772217], r_etag = ''1'' \<rparr>"
    unfolding k c d v if_True .
  from T [OF p(2)] have 2:
    "deleteIP ex_parse (ex_store ex_assigned) ?stale = (Inl EtagConflictError, ex_store ex_assigned)"
    unfolding k c if_False .
  from 1 2 show ?thesis by blast
qed

lemma apply_request_put:
  "operation r = ''put'' \<Longrightarrow> options r = None \<Longrightarrow>
     apply_request st r =
       Inr (decimal (counter st),
            st\<lparr> rows := (rows st)((bucket r, key r) \<mapsto> \<lparr> r_value = val r, r_etag = decimal (counter st) \<rparr>),
                counter := Suc (counter st) \<rparr>)"
  by (simp add: apply_request_def putObject_def Let_def)

lemma batch_steps_puts:
  "\<forall>r\<in>set reqs. operation r = ''put'' \<and> options r = None \<Longrightarrow>
     \<exists>etags st'. batch_steps st reqs = Inr (etags, st') \<and>
       (\<forall>bk. map_option r_value (rows st' bk) =
              foldl (\<lambda>m r. m((bucket r, key r) \<mapsto> val r)) (\<lambda>bk. map_option r_value (rows st bk)) reqs bk)"
proof (induction reqs arbitrary: st)
  case Nil
  then show ?case by simp
next
  case (Cons r reqs)
  let ?st1 = "st\<lparr> rows := (rows st)((bucket r, key r) \<mapsto> \<lparr> r_value = val r, r_etag = decimal (counter st) \<rparr>),
                  counter := Suc (counter st) \<rparr>"
  from Cons.prems have a: "apply_request st r = Inr (decimal (counter st), ?st1)"
    by (simp add: apply_request_put)
  from Cons.prems have "\<forall>r\<in>set reqs. operation r = ''put'' \<and> options r = None"
    by simp
  from Cons.IH [OF this, of ?st1] obtain etags st' where
    b: "batch_steps ?st1 reqs = Inr (etags, st')" and
    c: "\<forall>bk. map_option r_value (rows st' bk) =
              foldl (\<lambda>m r. m((bucket r, key r) \<mapsto> val r)) (\<lambda>bk. map_option r_value (rows ?st1 bk)) reqs bk"
    by blast
  have d: "(\<lambda>bk. map_option r_value (rows ?st1 bk)) = (\<lambda>bk. map_option r_value (rows st bk))((bucket r, key r) \<mapsto> val r)"
    by (rule ext) simp
  have e: "foldl (\<lambda>m r. m((bucket r, key r) \<mapsto> val r)) (\<lambda>bk. map_option r_value (rows st bk)) (r # reqs)
         = foldl (\<lambda>m r. m((bucket r, key r) \<mapsto> val r)) (\<lambda>bk. map_option r_value (rows ?st1 bk)) reqs"
    by (simp only: foldl_Cons d)
  have "batch_steps st (r # reqs) = Inr (decimal (counter st) # etags, st')"
    using a b by simp
  moreover have "\<forall>bk. map_option r_value (rows st' bk) =
      foldl (\<lambda>m r. m((bucket r, key r) \<mapsto> val r)) (\<lambda>bk. map_option r_value (rows st bk)) (r # reqs) bk"
    using c unfolding e .
  ultimately show ?case by blast
qed

lemma foldl_put_last:
  "r \<in> set reqs \<Longrightarrow>
     \<exists>r'\<in>set reqs. bucket r' = bucket r \<and> key r' = key r \<and>
        foldl (\<lambda>m r. m((bucket r, key r) \<mapsto> val r)) m reqs (bucket r, key r) = Some (val r')"
proof (induction reqs rule: rev_induct)
  case Nil
  then show ?case by simp
next
  case (snoc x xs)
  show ?case
  proof (cases "bucket x = bucket r \<and> key x = key r")
    case True
    then show ?thesis by auto
  next
    case False
    with snoc.prems have "r \<in> set xs" by auto
    from snoc.IH [OF this] False show ?thesis by auto
  qed
qed

text \<open>
  C10. Every request that \<^verbatim>\<open>batchCreateIPs\<close> emits is a put into the bucket of
  the network, with no \<^verbatim>\<open>options\<close> and so no expected etag. Whatever the store
  holds, the batch does not fail: afterwards the row of each emitted key holds the
  value of a request of the batch for that key.
\<close>

theorem batchCreateIPs_unconditional_put:
  assumes "batchCreateIPs_batchData parse ps = Inr (ips, batchData)"
  shows "(\<forall>r\<in>set batchData.
            operation r = ''put'' \<and> bucket r = bucketName (bc_network_uuid ps) \<and> options r = None)
     \<and> (\<exists>st'. batchCreateIPs parse st ps = (Inr ips, st') \<and>
           (\<forall>r\<in>set batchData. \<exists>r'\<in>set batchData.
               key r' = key r \<and> map_option r_value (rows st' (bucket r, key r)) = Some (val r')))"
proof -
  from assms have bd: "batchData = map (\<lambda>ip. \<lparr> bucket = bucketName (bc_network_uuid ps), key = ipKey ip,
        operation = ''put'', val = ipRaw ip, options = None \<rparr>) ips"
    by (auto simp: batchCreateIPs_batchData_def getBucketObj_def Let_def split: sum.splits)
  then have puts: "\<forall>r\<in>set batchData.
            operation r = ''put'' \<and> bucket r = bucketName (bc_network_uuid ps) \<and> options r = None"
    by auto
  then have "\<forall>r\<in>set batchData. operation r = ''put'' \<and> options r = None"
    by blast
  from batch_steps_puts [OF this, of st] obtain etags st' where
    b: "batch_steps st batchData = Inr (etags, st')" and
    c: "\<And>bk. map_option r_value (rows st' bk) =
              foldl (\<lambda>m r. m((bucket r, key r) \<mapsto> val r)) (\<lambda>bk. map_option r_value (rows st bk)) batchData bk"
    by blast
  from assms b have "batchCreateIPs parse st ps = (Inr ips, st')"
    by (simp add: batchCreateIPs_def moray_batch_def)
  moreover have "\<forall>r\<in>set batchData. \<exists>r'\<in>set batchData.
               key r' = key r \<and> map_option r_value (rows st' (bucket r, key r)) = Some (val r')"
  proof
    fix r assume "r \<in> set batchData"
    from foldl_put_last [OF this, of "\<lambda>bk. map_option r_value (rows st bk)"]
    show "\<exists>r'\<in>set batchData. key r' = key r \<and> map_option r_value (rows st' (bucket r, key r)) = Some (val r')"
      unfolding c by blast
  qed
  ultimately show ?thesis using puts by blast
qed

lemma ex_batchData:
  "batchCreateIPs_batchData ex_parse ex_batch =
     Inr ([ex_ip [''reserved'' \<mapsto> JBool False]\<lparr> etag := JNull \<rparr>],
          [\<lparr> bucket = ''napi_ips_1d0dd3de_1d8b'', key = ''167772217'', operation = ''put'',
             val = ipRaw (ex_ip [''reserved'' \<mapsto> JBool False]\<lparr> etag := JNull \<rparr>), options = None \<rparr>])"
  by (simp add: batchCreateIPs_batchData_def ex_batch_def ex_create_IP getBucketObj_def ex_bucket ex_ipKey)

theorem batchCreateIPs_unconditional_put_witness:
  "rows (ex_store ex_assigned) (''napi_ips_1d0dd3de_1d8b'', ''167772217'') \<noteq> None \<and>
   (\<exists>st'. batchCreateIPs ex_parse (ex_store ex_assigned) ex_batch
            = (Inr [ex_ip [''reserved'' \<mapsto> JBool False]\<lparr> etag := JNull \<rparr>], st') \<and>
          map_option r_value (rows st' (''napi_ips_1d0dd3de_1d8b'', ''167772217''))
            = Some (ipRaw (ex_ip [''reserved'' \<mapsto> JBool False]\<lparr> etag := JNull \<rparr>)))"
proof -
  have bn: "bucketName (bc_network_uuid ex_batch) = ''napi_ips_1d0dd3de_1d8b''"
    by (simp add: ex_batch_def ex_bucket)
  from batchCreateIPs_unconditional_put [OF ex_batchData, of "ex_store ex_assigned"]
  have "\<exists>st'. batchCreateIPs ex_parse (ex_store ex_assigned) ex_batch
            = (Inr [ex_ip [''reserved'' \<mapsto> JBool False]\<lparr> etag := JNull \<rparr>], st') \<and>
          map_option r_value (rows st' (''napi_ips_1d0dd3de_1d8b'', ''167772217''))
            = Some (ipRaw (ex_ip [''reserved'' \<mapsto> JBool False]\<lparr> etag := JNull \<rparr>))"
    by (simp add: bn)
  then show ?thesis
    by (simp add: ex_unassign_facts(6))
qed


section \<open>Properties of the network pool validation\<close>

lemma decimal_64: "decimal MAX_NETS = ''64''"
  by (simp add: MAX_NETS_def decimal.simps digit_char_def)

text \<open>
  C7. A list of more than \<open>MAX_NETS\<close> (64) UUIDs makes \<^verbatim>\<open>validateNetworks\<close> fail
  at once with one invalid-parameter error, whose message is
  \<^verbatim>\<open>maximum 64 networks per network pool\<close> and which lists no UUID; no UUID is
  looked up.
\<close>

theorem validateNetworks_max:
  "length uuids > MAX_NETS \<Longrightarrow>
     validateNetworks net_get sched POOL_TAGS_MATCH_MSG name uuids
       = (Inl (InvalidParam name ''maximum 64 networks per network pool'' None), [])"
  by (simp add: validateNetworks_def decimal_64)

theorem validateNetworks_max_witness:
  "validateNetworks (\<lambda>u. None) (\<lambda>us. us) ''tags must match'' ''networks'' (replicate 65 ''1d0dd3de-1d8b'')
       = (Inl (InvalidParam ''networks'' ''maximum 64 networks per network pool'' None), [])"
  by (rule validateNetworks_max) (simp add: MAX_NETS_def)

lemma mset_pair:
  assumes "mset xs = mset [a, b]"
  shows "xs = [a, b] \<or> xs = [b, a]"
proof -
  from assms have "length xs = length [a, b]"
    by (rule mset_eq_length)
  then obtain x y where xs: "xs = [x, y]"
    by (auto simp: length_Suc_conv)
  with assms show ?thesis
    by (auto simp: add_eq_conv_ex)
qed

lemma validateNetworks_two_tags:
  assumes "net_get a = Some na" and "net_get b = Some nb" and "nic_tag na \<noteq> nic_tag nb"
    and "us = [a, b] \<or> us = [b, a]"
  shows "foldl (validateNetworkUUID net_get) vn_init us
       = \<lparr> nets = [the (net_get (hd us))], notFound = [], tag = Some (nic_tag (the (net_get (hd us)))),
           tagsNotMatching = [last us], validated = [hd us] \<rparr>"
  using assms by (auto simp: validateNetworkUUID_def vn_init_def Let_def)

text \<open>
  C8, amended. For the list \<open>[a, b]\<close> of two networks with different nic tags,
  in whatever order the two lookups complete, \<^verbatim>\<open>validateNetworks\<close> fails with
  one invalid-parameter error whose message is the tags-do-not-match message; the
  error lists no network.
\<close>

theorem validateNetworks_tags_mismatch:
  assumes "net_get a = Some na" and "net_get b = Some nb" and "nic_tag na \<noteq> nic_tag nb"
    and "mset (sched [a, b]) = mset [a, b]"
  shows "validateNetworks net_get sched POOL_TAGS_MATCH_MSG name [a, b]
       = (Inl (InvalidParam name POOL_TAGS_MATCH_MSG None), [a, b])"
proof -
  from mset_pair [OF assms(4)] have "sched [a, b] = [a, b] \<or> sched [a, b] = [b, a]" .
  from validateNetworks_two_tags [OF assms(1-3) this] show ?thesis
    by (simp add: validateNetworks_def MAX_NETS_def Let_def)
qed

text \<open>
  C8, as the claim states it, fails: for two networks with different nic tags the
  error is the tags-do-not-match error without a list of networks.
\<close>

theorem validateNetworks_tags_counterexample:
  "validateNetworks ex_nets (\<lambda>us. us) ''tags must match'' ''networks'' [''net-a'', ''net-b'']
     = (Inl (InvalidParam ''networks'' ''tags must match'' None), [''net-a'', ''net-b''])"
  by (simp add: validateNetworks_def MAX_NETS_def Let_def validateNetworkUUID_def vn_init_def ex_nets_def)

theorem validateNetworks_tags_mismatch_witness:
  "validateNetworks ex_nets rev ''tags must match'' ''networks'' [''net-a'', ''net-b'']
     = (Inl (InvalidParam ''networks'' ''tags must match'' None), [''net-a'', ''net-b''])"
  by (rule validateNetworks_tags_mismatch [where na = "\<lparr> uuid = ''net-a'', nic_tag = ''external'', ip_use_strings = False \<rparr>"
        and nb = "\<lparr> uuid = ''net-b'', nic_tag = ''internal'', ip_use_strings = False \<rparr>"])
     (simp_all add: ex_nets_def)


section \<open>Properties of the LDAP filter\<close>

text \<open>
  C9. For an object with an own property \<^verbatim>\<open>filter\<close>, \<^verbatim>\<open>ldapFilter\<close> returns the
  value of that property, whatever its type, the bucket and the other properties.
\<close>

theorem ldapFilter_filter_property:
  "map_of ps ''filter'' = Some v \<Longrightarrow> ldapFilter (JObj ps) bkt = Inr v"
  by (auto simp: ldapFilter_def hashEmpty_def has_own_def get_own_def hasOwnProperty_def getp_def)

theorem ldapFilter_filter_property_witness:
  "ldapFilter (JObj [(''belongs_to_type'', JStr ''zone''), (''filter'', JNum 5)]) (Some BUCKET) = Inr (JNum 5)"
  by (rule ldapFilter_filter_property) simp

end
